theory Spec2Isabelle
  imports Complex_Main
begin

section \<open>Point clouds\<close>

text \<open>
  A C++ \<^verbatim>\<open>float\<close> is embedded by its value: a finite float is the real number it
  denotes, and the values for which \<^verbatim>\<open>std::isnan(z) || !std::isfinite(z)\<close> holds are
  \<open>NaN\<close> and \<open>Infinite\<close>. Comparison of finite floats is comparison of their values.
\<close>

datatype float = Finite real | Infinite | NaN

fun isnan :: "float \<Rightarrow> bool" where
  "isnan NaN = True"
| "isnan _ = False"

fun isfinite :: "float \<Rightarrow> bool" where
  "isfinite (Finite _) = True"
| "isfinite _ = False"

text \<open>\<^verbatim>\<open>PointT\<close>: a point with colour, as the filters and the integrator read it.\<close>

record PointT =
  pt_x :: float
  pt_y :: float
  pt_z :: float
  pt_r :: nat
  pt_g :: nat
  pt_b :: nat

record PointCloud =
  points :: "PointT list"
  width :: nat
  height :: nat
  is_dense :: bool

text \<open>A freshly allocated cloud (\<^verbatim>\<open>new PointCloud\<close>).\<close>

definition new_PointCloud :: PointCloud where
  "new_PointCloud = \<lparr>points = [], width = 0, height = 0, is_dense = True\<rparr>"

text \<open>
  Reading a vector at or past its size and calling through a pointer that was never
  assigned are undefined behaviour in the source; the model stops there with a fault.
\<close>

datatype fault = OutOfRange | NullViewer

section \<open>The temporal integrator\<close>

text \<open>
  \<^verbatim>\<open>static_cast<int>(static_cast<double>(range_vals.size()) / 2.0 + 0.5)\<close>: the
  conversion to \<^verbatim>\<open>int\<close> truncates, and the operand is not negative.
\<close>

definition middle_of :: "nat \<Rightarrow> nat" where
  "middle_of k = nat \<lfloor>real k / 2.0 + 0.5\<rfloor>"

text \<open>
  The inner loop over \<^verbatim>\<open>jj\<close>: the finite depths of pixel \<open>ii\<close>, in buffer order.
  \<^verbatim>\<open>point_clouds[jj].points[ii]\<close> is read unchecked.
\<close>

fun collect_range_vals :: "PointCloud list \<Rightarrow> nat \<Rightarrow> fault + real list" where
  "collect_range_vals [] ii = Inr []"
| "collect_range_vals (c # cs) ii =
     (if length (points c) \<le> ii then Inl OutOfRange
      else case collect_range_vals cs ii of
             Inl f \<Rightarrow> Inl f
           | Inr vs \<Rightarrow>
               (case pt_z (points c ! ii) of
                  Finite v \<Rightarrow> Inr (v # vs)
                | Infinite \<Rightarrow> Inr vs
                | NaN \<Rightarrow> Inr vs))"

text \<open>
  The body of the loop over \<^verbatim>\<open>ii\<close>. \<^verbatim>\<open>std::nth_element\<close> puts at position
  \<open>middle\<close> the element that a full ascending sort would put there, and does nothing
  when \<open>middle\<close> is the end of the vector; the read
  \<^verbatim>\<open>*(range_vals.begin() + middle)\<close> that follows is unchecked.
\<close>

definition integrate_point :: "PointCloud list \<Rightarrow> nat \<Rightarrow> fault + PointT" where
  "integrate_point point_clouds ii =
     (case collect_range_vals point_clouds ii of
        Inl f \<Rightarrow> Inl f
      | Inr range_vals \<Rightarrow>
          if range_vals = [] then Inr (points (hd point_clouds) ! ii)
          else
            let middle = middle_of (length range_vals) in
            if middle < length range_vals
            then Inr ((points (hd point_clouds) ! ii)
                        \<lparr>pt_z := Finite (sort range_vals ! middle)\<rparr>)
            else Inl OutOfRange)"

fun integrate_points :: "PointCloud list \<Rightarrow> nat list \<Rightarrow> fault + PointT list" where
  "integrate_points point_clouds [] = Inr []"
| "integrate_points point_clouds (ii # rest) =
     (case integrate_point point_clouds ii of
        Inl f \<Rightarrow> Inl f
      | Inr p \<Rightarrow>
          (case integrate_points point_clouds rest of
             Inl f \<Rightarrow> Inl f
           | Inr ps \<Rightarrow> Inr (p # ps)))"

definition IntegrateOrganizedClouds :: "PointCloud list \<Rightarrow> fault + PointCloud" where
  "IntegrateOrganizedClouds point_clouds =
     (if point_clouds = [] then Inr new_PointCloud
      else
        let num_points = length (points (hd point_clouds)) in
        case integrate_points point_clouds [0..<num_points] of
          Inl f \<Rightarrow> Inl f
        | Inr ps \<Rightarrow>
            Inr \<lparr>points = ps,
                 width = width (hd point_clouds),
                 height = height (hd point_clouds),
                 is_dense = is_dense (hd point_clouds)\<rparr>)"

text \<open>
  The selection rule in the words of the specification: the element at ordinal position
  \<open>\<lfloor>n/2 + 0.5\<rfloor>\<close>, counted from one, of the values in ascending order. For odd \<open>n\<close>
  this is the statistical median.
\<close>

definition spec_selected :: "real list \<Rightarrow> real" where
  "spec_selected vs = sort vs ! (nat \<lfloor>real (length vs) / 2 + 0.5\<rfloor> - 1)"

text \<open>A cloud of one pixel with the given depth.\<close>

definition pixel_cloud :: "float \<Rightarrow> PointCloud" where
  "pixel_cloud d =
     \<lparr>points = [\<lparr>pt_x = Finite 0, pt_y = Finite 0, pt_z = d, pt_r = 255, pt_g = 255, pt_b = 255\<rparr>],
      width = 1, height = 1, is_dense = False\<rparr>"

section \<open>Messages and collaborators\<close>

text \<open>
  \<^verbatim>\<open>ros::Time\<close> is its count of nanoseconds; \<^verbatim>\<open>operator<\<close> is the order of the counts.
  A \<^verbatim>\<open>sensor_msgs::PointCloud2\<close> is its header and the cloud that
  \<^verbatim>\<open>pcl::fromPCLPointCloud2\<close> decodes from it.
\<close>

record PointCloud2 =
  stamp :: nat
  frame_id :: string
  cloud :: PointCloud

text \<open>A rigid transform and an \<^verbatim>\<open>Eigen::Matrix4d\<close>: four rows of four entries.\<close>

type_synonym Matrix4d = "real list list"

record Pose =
  position :: "real \<times> real \<times> real"
  orientation :: "real \<times> real \<times> real \<times> real"

text \<open>A default-constructed \<^verbatim>\<open>geometry_msgs::Pose\<close>.\<close>

definition zero_Pose :: Pose where
  "zero_Pose = \<lparr>position = (0, 0, 0), orientation = (0, 0, 0, 0)\<rparr>"

record Marker =
  header_frame_id :: string
  ns :: string
  marker_id :: nat
  marker_pose :: Pose
  scale :: "real \<times> real \<times> real"
  color :: "real \<times> real \<times> real \<times> real"
  mesh_resource :: string

record LocalizeObjectsRequest =
  x_min :: real
  x_max :: real
  y_min :: real
  y_max :: real
  support_surface_height :: real
  object_ids :: "string list"
  camera_pose :: Matrix4d
  input_organized_cloud :: PointCloud

record LocalizeObjectsResponse =
  object_transforms :: "real list list"
  stats_field_names :: "string list"
  stats :: "real list"

datatype axis = AxisX | AxisY | AxisZ

text \<open>
  What the node calls and does not define: the transform listener (\<open>None\<close> when
  \<^verbatim>\<open>lookupTransform\<close> throws \<^verbatim>\<open>tf::TransformException\<close>), the contents of a
  \<^verbatim>\<open>tf::StampedTransform\<close> that was declared and never assigned,
  \<^verbatim>\<open>pcl_ros::transformPointCloud\<close>, an organized \<^verbatim>\<open>pcl::PassThrough\<close> on one field
  with its limits, \<^verbatim>\<open>perception_utils::OrganizedSegmentation\<close> (the inlier indices of
  each plane found), \<^verbatim>\<open>perception_utils::IndexFilter\<close>, \<^verbatim>\<open>tf::poseEigenToMsg\<close>, the
  localizer service (\<open>None\<close> when \<^verbatim>\<open>call\<close> returns false) and the value of the
  \<^verbatim>\<open>rand()\<close> call made in iteration \<open>ii\<close>.
\<close>

record env =
  lookupTransform :: "string \<Rightarrow> string \<Rightarrow> Matrix4d option"
  unassigned_transform :: Matrix4d
  transformPointCloud :: "Matrix4d \<Rightarrow> PointCloud \<Rightarrow> PointCloud"
  PassThrough :: "axis \<Rightarrow> real \<Rightarrow> real \<Rightarrow> PointCloud \<Rightarrow> PointCloud"
  OrganizedSegmentation :: "PointCloud \<Rightarrow> nat list list"
  IndexFilter :: "PointCloud \<Rightarrow> nat list \<Rightarrow> PointCloud"
  poseEigenToMsg :: "Matrix4d \<Rightarrow> Pose"
  call :: "LocalizeObjectsRequest \<Rightarrow> LocalizeObjectsResponse option"
  rand :: "nat \<Rightarrow> nat"

text \<open>
  What a callback leaves behind besides the new state: warnings and errors logged, the
  buffer size printed after a frame is collected, the service request sent, the messages
  published and the resolution of the goal. The other prints, \<^verbatim>\<open>ROS_INFO\<close>,
  \<^verbatim>\<open>ROS_DEBUG\<close> and what the viewer draws are left out.
\<close>

datatype event =
    ROS_WARN string
  | ROS_ERROR string
  | Collected nat
  | ServiceCall LocalizeObjectsRequest
  | PublishMarker Marker
  | PublishPose Pose
  | SetSucceeded "Pose list"
  | SetAborted "Pose list"

datatype exception = TransformException

text \<open>
  A callback returns, or an exception leaves it, or it reaches undefined behaviour.
  The state and the events are those at that point.
\<close>

datatype outcome = Returned | Thrown exception | Faulted fault

section \<open>The node\<close>

text \<open>
  The members of \<^verbatim>\<open>PerceptionInterface\<close>. \<open>goal_active\<close> is what
  \<^verbatim>\<open>perch_server_->isActive()\<close> answers; \<open>perch_result\<close> is
  \<^verbatim>\<open>perch_result_.object_poses\<close>. \<^verbatim>\<open>viewer_\<close> is assigned only by the constructor,
  and only when \<open>pcl_visualization\<close> is set.
\<close>

record PerceptionInterface =
  capture_kinect :: bool
  wait_for_recent :: bool
  cmd_rec_time :: nat
  num_observations_to_integrate :: int
  recent_observations :: "PointCloud list"
  recent_cloud :: PointCloud
  latest_requested_objects :: "string list"
  latest_object_poses :: "Pose list"
  latest_call_success :: bool
  perch_result :: "Pose list"
  goal_active :: bool
  pcl_visualization :: bool
  table_height :: real
  xmin :: real
  xmax :: real
  ymin :: real
  ymax :: real
  reference_frame :: string
  camera_frame :: string
  model_bank :: "string \<rightharpoonup> string"

type_synonym result = "outcome \<times> PerceptionInterface \<times> event list"

definition kColorPalette :: "nat list list" where
  "kColorPalette =
     [[240, 163, 255], [0, 117, 220], [153, 63, 0], [76, 0, 92], [25, 25, 25], [0, 92, 49],
      [43, 206, 72], [255, 204, 153], [128, 128, 128], [148, 255, 181], [143, 124, 0],
      [157, 204, 0], [194, 0, 136], [0, 51, 128], [255, 164, 5], [255, 168, 187],
      [66, 102, 0], [255, 0, 16], [94, 241, 242], [0, 153, 143], [224, 255, 102],
      [116, 10, 255], [153, 0, 0], [255, 255, 128], [255, 255, 0], [255, 80, 5]]"

text \<open>
  \<^verbatim>\<open>Eigen::Matrix4d eigen_pose(data)\<close> reads sixteen values in column-major order:
  entry (row, col) is \<open>data ! (row + 4 * col)\<close>.
\<close>

definition Matrix4d_of_raw :: "real list \<Rightarrow> Matrix4d" where
  "Matrix4d_of_raw d = map (\<lambda>row. map (\<lambda>col. d ! (row + 4 * col)) [0..<4]) [0..<4]"

definition transpose4 :: "Matrix4d \<Rightarrow> Matrix4d" where
  "transpose4 m = map (\<lambda>row. map (\<lambda>col. m ! col ! row) [0..<4]) [0..<4]"

text \<open>The colour forced on points without a finite depth.\<close>

definition blacken :: "PointT \<Rightarrow> PointT" where
  "blacken point =
     (if isnan (pt_z point) \<or> \<not> isfinite (pt_z point)
      then point\<lparr>pt_r := 0, pt_g := 0, pt_b := 0\<rparr>
      else point)"

text \<open>
  The filtering part of \<^verbatim>\<open>CloudCBInternal\<close>: pass-through on x, y and z
  (\<^verbatim>\<open>new_table_filter\<close> is the constant \<^verbatim>\<open>true\<close>), then
  \<^verbatim>\<open>IndexFilter(cloud, model_inliers[0].indices, true)\<close> when a plane was found, then
  the colour pass.
\<close>

definition table_removed_cloud :: "env \<Rightarrow> PerceptionInterface \<Rightarrow> PointCloud \<Rightarrow> PointCloud" where
  "table_removed_cloud e s original_cloud =
     (let c1 = PassThrough e AxisX (xmin s) (xmax s) original_cloud;
          c2 = PassThrough e AxisY (ymin s) (ymax s) c1;
          c3 = PassThrough e AxisZ (table_height s - 0.1) (table_height s + 0.55) c2;
          model_inliers = OrganizedSegmentation e c3;
          c4 = (if model_inliers \<noteq> [] then IndexFilter e c3 (hd model_inliers) else c3)
      in c4\<lparr>points := map blacken (points c4)\<rparr>)"

text \<open>
  \<^verbatim>\<open>model_bank_[model_name].file\<close>: a name that is not in the bank is entered with an
  empty file.
\<close>

definition model_file_of :: "PerceptionInterface \<Rightarrow> string \<Rightarrow> string" where
  "model_file_of s model_name = (case model_bank s model_name of None \<Rightarrow> [] | Some f \<Rightarrow> f)"

text \<open>
  The marker that the loop fills in. The colour is the value of the source's expression
  over \<^verbatim>\<open>double\<close>; the rounding when it is stored in the message's single-precision
  fields is not modelled.
\<close>

definition mesh_marker ::
  "PerceptionInterface \<Rightarrow> nat \<Rightarrow> Pose \<Rightarrow> nat list \<Rightarrow> string \<Rightarrow> Marker" where
  "mesh_marker s ii pose rgb model_file =
     \<lparr>header_frame_id = reference_frame s,
      ns = ''perch'',
      marker_id = ii,
      marker_pose = pose,
      scale = (1.0, 1.0, 1.0),
      color = (real (rgb ! 0) / 255.0, real (rgb ! 1) / 255.0, real (rgb ! 2) / 255.0, 0.8),
      mesh_resource = ''file://'' @ model_file\<rparr>"

text \<open>
  The loop over the requested identifiers after a successful call, one equation per
  iteration. \<^verbatim>\<open>srv.response.object_transforms[ii]\<close> and the sixteen values behind
  \<^verbatim>\<open>data.data()\<close> are read unchecked, and \<^verbatim>\<open>viewer_\<close> is used whether or not it was
  assigned.
\<close>

fun localize_loop ::
  "env \<Rightarrow> LocalizeObjectsResponse \<Rightarrow> string list \<Rightarrow> nat list \<Rightarrow> PerceptionInterface \<Rightarrow> result" where
  "localize_loop e resp ids [] s = (Returned, s, [])"
| "localize_loop e resp ids (ii # rest) s =
     (if length (object_transforms resp) \<le> ii \<or> length (object_transforms resp ! ii) < 16
      then (Faulted OutOfRange, s, [])
      else
        let object_transform = transpose4 (Matrix4d_of_raw (object_transforms resp ! ii));
            model_name = ids ! ii;
            model_file = model_file_of s model_name;
            s1 = s\<lparr>model_bank := (model_bank s)(model_name \<mapsto> model_file)\<rparr>
        in
        if \<not> pcl_visualization s1 then (Faulted NullViewer, s1, [])
        else
          let rand_idx = rand e ii mod length kColorPalette;
              pose = poseEigenToMsg e object_transform;
              s2 = s1\<lparr>latest_object_poses := (latest_object_poses s1)[ii := pose]\<rparr>;
              marker = mesh_marker s2 ii pose (kColorPalette ! rand_idx) model_file;
              evs = PublishMarker marker # (if ii = 0 then [PublishPose pose] else [])
          in case localize_loop e resp ids rest s2 of
               (out, s3, evs') \<Rightarrow> (out, s3, evs @ evs'))"

text \<open>The request that \<^verbatim>\<open>CloudCBInternal\<close> fills in before the call.\<close>

definition LocalizeObjects_request ::
  "PerceptionInterface \<Rightarrow> Matrix4d \<Rightarrow> PointCloud \<Rightarrow> LocalizeObjectsRequest" where
  "LocalizeObjects_request s transform filtered =
     \<lparr>x_min = xmin s, x_max = xmax s, y_min = ymin s, y_max = ymax s,
      support_surface_height = table_height s,
      object_ids = latest_requested_objects s,
      camera_pose = transform,
      input_organized_cloud = filtered\<rparr>"

definition CloudCBInternal :: "env \<Rightarrow> PerceptionInterface \<Rightarrow> PointCloud \<Rightarrow> result" where
  "CloudCBInternal e s original_cloud =
     (let s1 = s\<lparr>recent_cloud := original_cloud\<rparr>;
          filtered = table_removed_cloud e s1 original_cloud
      in case lookupTransform e (reference_frame s1) (camera_frame s1) of
           None \<Rightarrow> (Thrown TransformException, s1, [])
         | Some transform \<Rightarrow>
             let req = LocalizeObjects_request s1 transform filtered;
                 s2 = s1\<lparr>latest_object_poses := []\<rparr>
             in case call e req of
                  Some resp \<Rightarrow>
                    let s3 = s2\<lparr>latest_call_success := True\<rparr> in
                    if length (stats resp) < length (stats_field_names resp)
                    then (Faulted OutOfRange, s3, [ServiceCall req])
                    else
                      let s4 = s3\<lparr>latest_object_poses :=
                                    replicate (length (object_ids req)) zero_Pose\<rparr>
                      in (case localize_loop e resp (object_ids req)
                                  [0..<length (object_ids req)] s4 of
                            (Returned, s5, evs) \<Rightarrow>
                              if goal_active s5
                              then (Returned,
                                    s5\<lparr>perch_result := latest_object_poses s5,
                                       goal_active := False\<rparr>,
                                    ServiceCall req # evs @ [SetSucceeded (latest_object_poses s5)])
                              else (Returned, s5, ServiceCall req # evs)
                          | (out, s5, evs) \<Rightarrow> (out, s5, ServiceCall req # evs))
                | None \<Rightarrow>
                    let s3 = s2\<lparr>latest_call_success := False\<rparr>;
                        err = ROS_ERROR ''Object localizer service failed.''
                    in if goal_active s3
                       then (Returned, s3\<lparr>perch_result := [], goal_active := False\<rparr>,
                             [ServiceCall req, err, SetAborted []])
                       else (Returned, s3, [ServiceCall req, err]))"

text \<open>
  The \<^verbatim>\<open>try\<close> block of \<^verbatim>\<open>CloudCB\<close> and the conversion after it: the handler logs the
  exception and control goes on to \<^verbatim>\<open>pcl_ros::transformPointCloud\<close> with the
  \<^verbatim>\<open>transform\<close> that the failed lookup never assigned. The test
  \<^verbatim>\<open>pcl_cloud == nullptr\<close> that follows is on a pointer just allocated and never holds.
\<close>

definition to_reference_frame ::
  "env \<Rightarrow> PerceptionInterface \<Rightarrow> PointCloud2 \<Rightarrow> PointCloud \<times> event list" where
  "to_reference_frame e s sensor_cloud =
     (case lookupTransform e (reference_frame s) (frame_id sensor_cloud) of
        Some transform \<Rightarrow> (transformPointCloud e transform (cloud sensor_cloud), [])
      | None \<Rightarrow>
          (transformPointCloud e (unassigned_transform e) (cloud sensor_cloud),
           [ROS_ERROR ''tf::TransformException'']))"

definition CloudCB :: "env \<Rightarrow> PerceptionInterface \<Rightarrow> PointCloud2 \<Rightarrow> result" where
  "CloudCB e s sensor_cloud =
     (if \<not> capture_kinect s then (Returned, s, [])
      else if wait_for_recent s \<and> stamp sensor_cloud < cmd_rec_time s
      then (Returned, s, [ROS_WARN ''Point cloud is too old!''])
      else
        let (pcl_cloud, caught) = to_reference_frame e s sensor_cloud;
            s1 = s\<lparr>recent_observations := recent_observations s @ [pcl_cloud]\<rparr>;
            evs = caught @ [Collected (length (recent_observations s1))]
        in
        if int (length (recent_observations s1)) < num_observations_to_integrate s1
        then (Returned, s1, evs)
        else
          case IntegrateOrganizedClouds (recent_observations s1) of
            Inl f \<Rightarrow> (Faulted f, s1, evs)
          | Inr integrated_cloud \<Rightarrow>
              (case CloudCBInternal e s1 pcl_cloud of
                 (Returned, s2, evs') \<Rightarrow> (Returned, s2\<lparr>capture_kinect := False\<rparr>, evs @ evs')
               | (out, s2, evs') \<Rightarrow> (out, s2, evs @ evs')))"

text \<open>\<^verbatim>\<open>static_cast<char>(pressed_key.code) == 'c'\<close> on a 16-bit key code.\<close>

definition KeyboardCB :: "PerceptionInterface \<Rightarrow> nat \<Rightarrow> result" where
  "KeyboardCB s code =
     (if code mod 256 = 99 then (Returned, s\<lparr>capture_kinect := True\<rparr>, [])
      else (Returned, s, []))"

text \<open>\<open>now\<close> is what \<^verbatim>\<open>ros::Time::now()\<close> answers during the call.\<close>

definition RequestedObjectsCB :: "nat \<Rightarrow> PerceptionInterface \<Rightarrow> string \<Rightarrow> result" where
  "RequestedObjectsCB now s object_name =
     (let s1 = s\<lparr>latest_requested_objects := [object_name],
                 capture_kinect := True,
                 recent_observations := []\<rparr>
      in if wait_for_recent s1 then (Returned, s1\<lparr>cmd_rec_time := now\<rparr>, [])
         else (Returned, s1, []))"

text \<open>
  \<open>goal_ids\<close> are the identifiers of the goal that \<^verbatim>\<open>acceptNewGoal\<close> makes the active
  one. The boolean is the value the callback returns.
\<close>

definition PERCHGoalCB :: "PerceptionInterface \<Rightarrow> string list \<Rightarrow> bool \<times> PerceptionInterface \<times> event list" where
  "PERCHGoalCB s goal_ids =
     (let s1 = s\<lparr>latest_requested_objects := goal_ids, goal_active := True\<rparr>
      in if latest_requested_objects s1 = []
         then (False, s1\<lparr>perch_result := [], goal_active := False\<rparr>, [SetAborted []])
         else (True, s1\<lparr>capture_kinect := True\<rparr>, []))"

text \<open>The constructor, for the parameters it reads.\<close>

definition PerceptionInterface_init ::
  "bool \<Rightarrow> real \<Rightarrow> real \<Rightarrow> real \<Rightarrow> real \<Rightarrow> real \<Rightarrow> string \<Rightarrow> string \<Rightarrow> bool \<Rightarrow>
   (string \<rightharpoonup> string) \<Rightarrow> PerceptionInterface" where
  "PerceptionInterface_init vis th x0 y0 x1 y1 ref cam recent bank =
     \<lparr>capture_kinect = False, wait_for_recent = recent, cmd_rec_time = 0,
      num_observations_to_integrate = 1, recent_observations = [],
      recent_cloud = new_PointCloud, latest_requested_objects = [],
      latest_object_poses = [], latest_call_success = False, perch_result = [],
      goal_active = False, pcl_visualization = vis, table_height = th,
      xmin = x0, xmax = x1, ymin = y0, ymax = y1,
      reference_frame = ref, camera_frame = cam, model_bank = bank\<rparr>"

text \<open>
  The loop of \<^verbatim>\<open>main\<close>: \<^verbatim>\<open>ros::spinOnce\<close> runs the callback of each message in turn.
  Nothing in \<^verbatim>\<open>main\<close> catches an exception, so one that leaves a callback ends the loop
  and the process, and the messages behind it are never handled.
\<close>

datatype inbound =
    CloudMsg PointCloud2
  | KeyMsg nat
  | RequestedObjectMsg nat string
  | GoalMsg "string list"

fun dispatch :: "env \<Rightarrow> PerceptionInterface \<Rightarrow> inbound \<Rightarrow> result" where
  "dispatch e s (CloudMsg sensor_cloud) = CloudCB e s sensor_cloud"
| "dispatch e s (KeyMsg code) = KeyboardCB s code"
| "dispatch e s (RequestedObjectMsg now object_name) = RequestedObjectsCB now s object_name"
| "dispatch e s (GoalMsg goal_ids) =
     (case PERCHGoalCB s goal_ids of (_, s', evs) \<Rightarrow> (Returned, s', evs))"

fun spin :: "env \<Rightarrow> PerceptionInterface \<Rightarrow> inbound list \<Rightarrow> result" where
  "spin e s [] = (Returned, s, [])"
| "spin e s (m # ms) =
     (case dispatch e s m of
        (Returned, s1, evs) \<Rightarrow>
          (case spin e s1 ms of (out, s2, evs') \<Rightarrow> (out, s2, evs @ evs'))
      | (out, s1, evs) \<Rightarrow> (out, s1, evs))"

section \<open>Reading a result\<close>

abbreviation outcome_of :: "result \<Rightarrow> outcome" where
  "outcome_of r \<equiv> fst r"

abbreviation state_of :: "result \<Rightarrow> PerceptionInterface" where
  "state_of r \<equiv> fst (snd r)"

abbreviation events_of :: "result \<Rightarrow> event list" where
  "events_of r \<equiv> snd (snd r)"



fun service_requests :: "event list \<Rightarrow> LocalizeObjectsRequest list" where
  "service_requests [] = []"
| "service_requests (ServiceCall req # evs) = req # service_requests evs"
| "service_requests (_ # evs) = service_requests evs"

text \<open>The pose that the loop computes for the identifier at index \<open>ii\<close>.\<close>

definition pose_of_response :: "env \<Rightarrow> LocalizeObjectsResponse \<Rightarrow> nat \<Rightarrow> Pose" where
  "pose_of_response e resp ii =
     poseEigenToMsg e (transpose4 (Matrix4d_of_raw (object_transforms resp ! ii)))"


section \<open>A concrete setting\<close>

text \<open>
  Collaborators to run the node on: the listener resolves every frame except those in
  \<open>lost\<close>, a transform moves a cloud along z by its entry (2, 3), the filters keep
  everything, no plane is found, the pose takes its position from the last column, and
  the service answers one payload \<open>payload\<close> per identifier, or fails when \<open>ok\<close> is
  false.
\<close>

definition identity4 :: Matrix4d where
  "identity4 = [[1, 0, 0, 0], [0, 1, 0, 0], [0, 0, 1, 0], [0, 0, 0, 1]]"

definition stray4 :: Matrix4d where
  "stray4 = [[0, 0, 0, 0], [0, 0, 0, 0], [0, 0, 0, 7], [0, 0, 0, 0]]"

definition shift_z :: "real \<Rightarrow> PointT \<Rightarrow> PointT" where
  "shift_z d p = (case pt_z p of Finite v \<Rightarrow> p\<lparr>pt_z := Finite (v + d)\<rparr> | _ \<Rightarrow> p)"

definition payload :: "real list" where
  "payload = [1, 2, 3, 4, 5, 6, 7, 8, 9, 10, 11, 12, 13, 14, 15, 16]"

definition ex_env :: "string list \<Rightarrow> bool \<Rightarrow> env" where
  "ex_env lost ok =
     \<lparr>lookupTransform = (\<lambda>target source. if source \<in> set lost then None else Some identity4),
      unassigned_transform = stray4,
      transformPointCloud = (\<lambda>t c. c\<lparr>points := map (shift_z (t ! 2 ! 3)) (points c)\<rparr>),
      PassThrough = (\<lambda>a lo hi c. c),
      OrganizedSegmentation = (\<lambda>c. []),
      IndexFilter = (\<lambda>c idx. c),
      poseEigenToMsg = (\<lambda>m. \<lparr>position = (m ! 0 ! 3, m ! 1 ! 3, m ! 2 ! 3),
                              orientation = (0, 0, 0, 1)\<rparr>),
      call = (\<lambda>req. if ok
                     then Some \<lparr>object_transforms = map (\<lambda>_. payload) (object_ids req),
                                stats_field_names = [], stats = []\<rparr>
                     else None),
      rand = (\<lambda>ii. ii)\<rparr>"

text \<open>The node after construction, with the integration count set to \<open>n\<close>.\<close>

definition ex_node :: "int \<Rightarrow> bool \<Rightarrow> PerceptionInterface" where
  "ex_node n recent =
     (PerceptionInterface_init True 0 0 0 1 1 ''/base_footprint'' ''/camera'' recent Map.empty)
       \<lparr>num_observations_to_integrate := n\<rparr>"

definition frame :: "nat \<Rightarrow> string \<Rightarrow> real \<Rightarrow> PointCloud2" where
  "frame t src d = \<lparr>stamp = t, frame_id = src, cloud = pixel_cloud (Finite d)\<rparr>"

section \<open>The integrator\<close>

lemma middle_of_eq: "middle_of k = (k + 1) div 2"
proof -
  have eq: "real k / 2.0 + 0.5 = real (k + 1) / real 2" by (simp add: field_simps)
  have "\<lfloor>real (k + 1) / real 2\<rfloor> = int ((k + 1) div 2)"
    by (simp only: floor_divide_of_nat_eq)
  then show ?thesis unfolding middle_of_def eq by simp
qed

lemma middle_of_in_range: "2 \<le> k \<Longrightarrow> middle_of k < k"
  by (simp add: middle_of_eq)

text \<open>
  With \<open>k \<ge> 2\<close> finite depths the pixel gets the element at index \<open>(k + 1) div 2\<close>,
  counted from zero, of the ascending order; with one, the read is past the end.
\<close>

lemma integrate_point_selects:
  assumes "collect_range_vals point_clouds ii = Inr vs" and "2 \<le> length vs"
  shows "integrate_point point_clouds ii =
    Inr ((points (hd point_clouds) ! ii)\<lparr>pt_z := Finite (sort vs ! ((length vs + 1) div 2))\<rparr>)"
proof -
  from assms(2) have "vs \<noteq> []" by auto
  moreover from assms(2) have "middle_of (length vs) < length vs" by (rule middle_of_in_range)
  ultimately show ?thesis
    using assms(1) by (simp add: integrate_point_def Let_def middle_of_eq)
qed

lemma integrate_point_single:
  "collect_range_vals point_clouds ii = Inr [v] \<Longrightarrow> integrate_point point_clouds ii = Inl OutOfRange"
  by (simp add: integrate_point_def middle_of_eq)

text \<open>
  Claim C2: for an odd number of finite depths the integrator's output at the pixel is
  their statistical median, and for an even number \<open>n\<close> it is the element at ordinal
  \<open>\<lfloor>n/2 + 0.5\<rfloor>\<close>, counted from one, of the ascending order. The code uses that ordinal
  as an index counted from zero, so it returns the element one place higher: for the
  depths 1, 2, 3 it returns 3 where the median is 2, and for 1, 2 it returns 2 where
  the claim names 1.
\<close>

theorem integrator_selects_above_median:
  "IntegrateOrganizedClouds
      [pixel_cloud (Finite 1), pixel_cloud (Finite 2), pixel_cloud (Finite 3)]
     = Inr (pixel_cloud (Finite 3))
   \<and> spec_selected [1, 2, 3] = 2
   \<and> IntegrateOrganizedClouds [pixel_cloud (Finite 1), pixel_cloud (Finite 2)]
     = Inr (pixel_cloud (Finite 2))
   \<and> spec_selected [1, 2] = 1"
  by (simp add: middle_of_eq IntegrateOrganizedClouds_def integrate_point_def pixel_cloud_def
      spec_selected_def)

text \<open>
  Claim C3: for every pixel with \<open>k \<ge> 1\<close> finite depths the selection index is smaller
  than \<open>k\<close>, so the read after \<^verbatim>\<open>nth_element\<close> stays inside the scratch vector, in
  particular for \<open>k = 1\<close>. At \<open>k = 1\<close> the index is 1, the size of the vector, and
  integrating a single frame with a finite depth reads past its end.
\<close>

theorem selection_index_past_end:
  "middle_of 1 = 1
   \<and> collect_range_vals [pixel_cloud (Finite 1)] 0 = Inr [1]
   \<and> IntegrateOrganizedClouds [pixel_cloud (Finite 1)] = Inl OutOfRange"
  by (simp add: middle_of_eq IntegrateOrganizedClouds_def integrate_point_def pixel_cloud_def)

section \<open>The loop over the requested identifiers\<close>

lemma localize_loop_keeps:
  "recent_observations (state_of (localize_loop e resp ids iis s)) = recent_observations s
   \<and> capture_kinect (state_of (localize_loop e resp ids iis s)) = capture_kinect s
   \<and> goal_active (state_of (localize_loop e resp ids iis s)) = goal_active s
   \<and> pcl_visualization (state_of (localize_loop e resp ids iis s)) = pcl_visualization s
   \<and> latest_requested_objects (state_of (localize_loop e resp ids iis s))
       = latest_requested_objects s
   \<and> recent_cloud (state_of (localize_loop e resp ids iis s)) = recent_cloud s
   \<and> perch_result (state_of (localize_loop e resp ids iis s)) = perch_result s"
  by (induction iis arbitrary: s) (simp_all add: Let_def case_prod_beta)










section \<open>The recognition stage\<close>






lemma CloudCBInternal_keeps:
  "recent_observations (state_of (CloudCBInternal e s c)) = recent_observations s
   \<and> capture_kinect (state_of (CloudCBInternal e s c)) = capture_kinect s"
  by (simp add: CloudCBInternal_def Let_def localize_loop_keeps case_prod_beta
      split: option.splits outcome.splits)

lemma CloudCBInternal_recent_cloud:
  "recent_cloud (state_of (CloudCBInternal e s c)) = c"
  by (simp add: CloudCBInternal_def Let_def localize_loop_keeps case_prod_beta
      split: option.splits outcome.splits)





section \<open>The frame gate\<close>

lemma CloudCB_disarmed: "\<not> capture_kinect s \<Longrightarrow> CloudCB e s f = (Returned, s, [])"
  by (simp add: CloudCB_def)

lemma CloudCB_stale:
  "capture_kinect s \<Longrightarrow> wait_for_recent s \<Longrightarrow> stamp f < cmd_rec_time s \<Longrightarrow>
   CloudCB e s f = (Returned, s, [ROS_WARN ''Point cloud is too old!''])"
  by (simp add: CloudCB_def)

text \<open>
  A frame that passes the two checks is put at the end of the buffer, whatever the
  transform lookup answers and whatever happens afterwards.
\<close>

lemma CloudCB_appends:
  "capture_kinect s \<Longrightarrow> \<not> (wait_for_recent s \<and> stamp f < cmd_rec_time s) \<Longrightarrow>
   recent_observations (state_of (CloudCB e s f))
     = recent_observations s @ [fst (to_reference_frame e s f)]"
  by (simp add: CloudCB_def Let_def case_prod_beta CloudCBInternal_keeps
      split: sum.splits outcome.splits)

text \<open>
  When the count is reached and the buffer integrates, the cloud that
  \<^verbatim>\<open>CloudCBInternal\<close> receives and stores is the frame just converted.
\<close>

lemma CloudCB_hands_converted_frame:
  assumes "capture_kinect s" and "\<not> (wait_for_recent s \<and> stamp f < cmd_rec_time s)"
    and "\<not> int (length (recent_observations s) + 1) < num_observations_to_integrate s"
    and "IntegrateOrganizedClouds (recent_observations s @ [fst (to_reference_frame e s f)])
      = Inr integrated_cloud"
  shows "recent_cloud (state_of (CloudCB e s f)) = fst (to_reference_frame e s f)"
proof -
  from assms(2) have fresh: "(wait_for_recent s \<and> stamp f < cmd_rec_time s) = False"
    by simp
  show ?thesis
    using assms(1,3,4)
    by (simp add: CloudCB_def fresh Let_def case_prod_beta CloudCBInternal_recent_cloud
        split: outcome.splits)
qed

text \<open>
  Claim C10: with staleness gating on and the issue time \<open>T\<close> recorded by the request,
  an armed gate rejects every frame stamped before \<open>T\<close> and leaves the buffer (and the
  rest of the state) as it was, and a frame stamped \<open>T\<close> or later, \<open>T + 1\<close> say, passes
  and is put at the end of the buffer.
\<close>

theorem staleness_gate:
  assumes "wait_for_recent s"
  shows "cmd_rec_time (state_of (RequestedObjectsCB T s name)) = T
    \<and> capture_kinect (state_of (RequestedObjectsCB T s name))
    \<and> (capture_kinect s \<and> stamp f < cmd_rec_time s \<longrightarrow>
         CloudCB e s f = (Returned, s, [ROS_WARN ''Point cloud is too old!'']))
    \<and> (capture_kinect s \<and> cmd_rec_time s \<le> stamp f \<longrightarrow>
         recent_observations (state_of (CloudCB e s f))
           = recent_observations s @ [fst (to_reference_frame e s f)])"
  using assms
  by (simp add: RequestedObjectsCB_def CloudCB_stale CloudCB_appends)

text \<open>
  The theorem for claim C10 after a request issued at time 5: the frame stamped 4 is
  rejected and nothing changes, the frame stamped 6 is the one frame of the buffer.
\<close>

theorem staleness_gate_witness:
  "wait_for_recent (ex_node 2 True)
   \<and> cmd_rec_time (state_of (RequestedObjectsCB 5 (ex_node 2 True) ''mug'')) = 5
   \<and> CloudCB (ex_env [] True) (state_of (RequestedObjectsCB 5 (ex_node 2 True) ''mug''))
        (frame 4 ''/kinect'' 1)
      = (Returned, state_of (RequestedObjectsCB 5 (ex_node 2 True) ''mug''),
         [ROS_WARN ''Point cloud is too old!''])
   \<and> recent_observations
        (state_of (CloudCB (ex_env [] True)
           (state_of (RequestedObjectsCB 5 (ex_node 2 True) ''mug'')) (frame 6 ''/kinect'' 1)))
      = [pixel_cloud (Finite 1)]"
proof -
  let ?s = "state_of (RequestedObjectsCB 5 (ex_node 2 True) ''mug'')"
  have h0: "wait_for_recent (ex_node 2 True)"
    by (simp add: ex_node_def PerceptionInterface_init_def)
  have h1: "wait_for_recent ?s" and h2: "capture_kinect ?s" and h3: "cmd_rec_time ?s = 5"
    and h4: "recent_observations ?s = []"
    by (simp_all add: RequestedObjectsCB_def ex_node_def PerceptionInterface_init_def)
  have h5: "fst (to_reference_frame (ex_env [] True) ?s (frame 6 ''/kinect'' 1))
      = pixel_cloud (Finite 1)"
    by (simp add: to_reference_frame_def ex_env_def frame_def pixel_cloud_def shift_z_def
        identity4_def)
  have s4: "stamp (frame 4 ''/kinect'' 1) < 5" and s6: "5 \<le> stamp (frame 6 ''/kinect'' 1)"
    by (simp_all add: frame_def)
  show ?thesis
    using staleness_gate [OF h0, where T = 5 and name = "''mug''"]
      staleness_gate [OF h1, where f = "frame 4 ''/kinect'' 1" and e = "ex_env [] True"]
      staleness_gate [OF h1, where f = "frame 6 ''/kinect'' 1" and e = "ex_env [] True"]
      h0 h2 h3 h4 h5 s4 s6
    by simp
qed

text \<open>
  Claim C9: a goal with an empty identifier list is rejected at once: the goal is
  aborted with an empty result, the callback does not arm the gate and does not touch
  the buffer, and a gate that was disarmed goes on rejecting every frame.
\<close>

theorem empty_goal_rejected:
  "PERCHGoalCB s [] =
     (False,
      s\<lparr>latest_requested_objects := [], perch_result := [], goal_active := False\<rparr>,
      [SetAborted []])
   \<and> capture_kinect (fst (snd (PERCHGoalCB s []))) = capture_kinect s
   \<and> recent_observations (fst (snd (PERCHGoalCB s []))) = recent_observations s
   \<and> (\<not> capture_kinect s \<longrightarrow>
        CloudCB e (fst (snd (PERCHGoalCB s []))) f
          = (Returned, fst (snd (PERCHGoalCB s [])), []))"
  by (simp add: PERCHGoalCB_def CloudCB_def)

text \<open>The theorem for claim C9 at the node as constructed, then one frame.\<close>

theorem empty_goal_rejected_witness:
  "\<not> capture_kinect (ex_node 1 False)
   \<and> PERCHGoalCB (ex_node 1 False) [] =
       (False, (ex_node 1 False)\<lparr>latest_requested_objects := [], perch_result := [],
                 goal_active := False\<rparr>, [SetAborted []])
   \<and> CloudCB (ex_env [] True) (fst (snd (PERCHGoalCB (ex_node 1 False) [])))
        (frame 1 ''/kinect'' 1)
      = (Returned, fst (snd (PERCHGoalCB (ex_node 1 False) [])), [])"
proof -
  have h: "\<not> capture_kinect (ex_node 1 False)"
    by (simp add: ex_node_def PerceptionInterface_init_def)
  show ?thesis
    using h empty_goal_rejected [of "ex_node 1 False" "ex_env [] True" "frame 1 ''/kinect'' 1"]
    by blast
qed

section \<open>Runs of the node\<close>

lemmas run_defs =
  CloudCB_def CloudCBInternal_def to_reference_frame_def LocalizeObjects_request_def
  table_removed_cloud_def blacken_def RequestedObjectsCB_def PERCHGoalCB_def KeyboardCB_def
  PerceptionInterface_init_def IntegrateOrganizedClouds_def integrate_point_def middle_of_eq
  ex_env_def ex_node_def frame_def pixel_cloud_def shift_z_def identity4_def stray4_def
  payload_def Matrix4d_of_raw_def transpose4_def mesh_marker_def model_file_of_def
  kColorPalette_def zero_Pose_def Let_def

text \<open>
  Claim C1: whenever the integration count \<open>n \<ge> 1\<close> is reached, the cloud handed to the
  workspace filter, and from there put into the recognition request, is the integrated
  cloud over the \<open>n\<close> buffered frames and not a single raw frame. With \<open>n = 2\<close> and
  frames of depth 2 and then 1, the integrated cloud has depth 2, but the cloud that
  \<^verbatim>\<open>CloudCBInternal\<close> stores and the cloud in the request both have depth 1: they are
  the last frame.
\<close>

theorem last_frame_reaches_workspace_filter:
  "recent_observations (state_of (spin (ex_env [] True) (ex_node 2 False)
      [RequestedObjectMsg 0 ''mug'', CloudMsg (frame 1 ''/kinect'' 2),
       CloudMsg (frame 2 ''/kinect'' 1)]))
     = [pixel_cloud (Finite 2), pixel_cloud (Finite 1)]
   \<and> IntegrateOrganizedClouds [pixel_cloud (Finite 2), pixel_cloud (Finite 1)]
     = Inr (pixel_cloud (Finite 2))
   \<and> recent_cloud (state_of (spin (ex_env [] True) (ex_node 2 False)
      [RequestedObjectMsg 0 ''mug'', CloudMsg (frame 1 ''/kinect'' 2),
       CloudMsg (frame 2 ''/kinect'' 1)]))
     = pixel_cloud (Finite 1)
   \<and> map input_organized_cloud (service_requests (events_of (spin (ex_env [] True)
      (ex_node 2 False)
      [RequestedObjectMsg 0 ''mug'', CloudMsg (frame 1 ''/kinect'' 2),
       CloudMsg (frame 2 ''/kinect'' 1)])))
     = [pixel_cloud (Finite 1)]"
  by (simp add: run_defs)

text \<open>
  Claim C4: while the gate is armed, a frame whose transform into the reference frame
  cannot be resolved is not put into the buffer; a warning is reported, the gate stays
  armed and the buffer is unchanged. Here the listener cannot resolve the frame's
  source: the handler logs the exception as an error, and the frame enters the empty
  buffer all the same, moved by the transform that was never assigned (depth 1 becomes
  depth 8).
\<close>

theorem unresolved_frame_is_buffered:
  "spin (ex_env [''/kinect''] True) (ex_node 2 False)
      [RequestedObjectMsg 0 ''mug'', CloudMsg (frame 1 ''/kinect'' 1)]
   = (Returned,
      (ex_node 2 False)\<lparr>latest_requested_objects := [''mug''], capture_kinect := True,
          recent_observations := [pixel_cloud (Finite 8)]\<rparr>,
      [ROS_ERROR ''tf::TransformException'', Collected 1])"
  by (simp add: run_defs)

text \<open>
  Claim C5: when the camera transform cannot be resolved for the request, only the
  capture in flight is aborted: nothing is sent or published, the goal is aborted, and
  the node is idle and takes the next request; the failure never ends the process. Here
  the second frame completes the count and the camera lookup fails: the exception
  leaves the callback and the loop of \<^verbatim>\<open>main\<close>, the goal is still active and was not
  aborted, the gate is still armed, and the next goal is never accepted.
\<close>

theorem camera_lookup_failure_ends_spin:
  "spin (ex_env [''/camera''] True) (ex_node 2 False)
      [GoalMsg [''mug''], CloudMsg (frame 1 ''/kinect'' 1), CloudMsg (frame 2 ''/kinect'' 2),
       GoalMsg [''bowl'']]
   = (Thrown TransformException,
      (ex_node 2 False)\<lparr>latest_requested_objects := [''mug''], goal_active := True,
          capture_kinect := True,
          recent_observations := [pixel_cloud (Finite 1), pixel_cloud (Finite 2)],
          recent_cloud := pixel_cloud (Finite 2)\<rparr>,
      [Collected 1, Collected 2])"
  by (simp add: run_defs)

text \<open>
  Claim C7: the buffer is cleared at the start of every capture request, from the
  request channel or from the goal channel, and after every successful integration, so
  no frame of one capture is integrated into a later one. Here a request with two
  frames completes and the buffer still holds both; a goal is then accepted and the
  buffer is not cleared; the first frame after it makes the buffer three frames long,
  which reaches the count of 2 at once, and the second service call goes out.
\<close>

theorem buffer_survives_capture_and_goal:
  "recent_observations (state_of (spin (ex_env [] True) (ex_node 2 False)
      [RequestedObjectMsg 0 ''mug'', CloudMsg (frame 1 ''/kinect'' 1),
       CloudMsg (frame 2 ''/kinect'' 2)]))
     = [pixel_cloud (Finite 1), pixel_cloud (Finite 2)]
   \<and> recent_observations (state_of (spin (ex_env [] True) (ex_node 2 False)
      [RequestedObjectMsg 0 ''mug'', CloudMsg (frame 1 ''/kinect'' 1),
       CloudMsg (frame 2 ''/kinect'' 2), GoalMsg [''bowl'']]))
     = [pixel_cloud (Finite 1), pixel_cloud (Finite 2)]
   \<and> recent_observations (state_of (spin (ex_env [] True) (ex_node 2 False)
      [RequestedObjectMsg 0 ''mug'', CloudMsg (frame 1 ''/kinect'' 1),
       CloudMsg (frame 2 ''/kinect'' 2), GoalMsg [''bowl''], CloudMsg (frame 3 ''/kinect'' 3)]))
     = [pixel_cloud (Finite 1), pixel_cloud (Finite 2), pixel_cloud (Finite 3)]
   \<and> map object_ids (service_requests (events_of (spin (ex_env [] True) (ex_node 2 False)
      [RequestedObjectMsg 0 ''mug'', CloudMsg (frame 1 ''/kinect'' 1),
       CloudMsg (frame 2 ''/kinect'' 2), GoalMsg [''bowl''], CloudMsg (frame 3 ''/kinect'' 3)])))
     = [[''mug''], [''bowl'']]"
  by (simp add: run_defs)

text \<open>
  Claim C8: when the service call fails no pose result is kept and an active goal is
  aborted; when it succeeds for \<open>K\<close> identifiers, exactly \<open>K\<close> results are built, each
  from its payload transposed. Here the node is as the constructor leaves it
  (\<open>pcl_visualization\<close> off, count 1), a goal for one identifier is accepted, and a frame
  without a finite depth completes the capture. The service answers, the list is
  resized to one default pose, and the first iteration uses the viewer that was never
  created before it stores the pose: the result is still the default pose, not the
  pose (4, 8, 12) of the payload, and the goal is never resolved.
\<close>

theorem results_not_built_without_viewer:
  "outcome_of (spin (ex_env [] True) ((ex_node 1 False)\<lparr>pcl_visualization := False\<rparr>)
      [GoalMsg [''mug''],
       CloudMsg \<lparr>stamp = 1, frame_id = ''/kinect'', cloud = pixel_cloud NaN\<rparr>])
     = Faulted NullViewer
   \<and> map object_ids (service_requests (events_of (spin (ex_env [] True)
      ((ex_node 1 False)\<lparr>pcl_visualization := False\<rparr>)
      [GoalMsg [''mug''],
       CloudMsg \<lparr>stamp = 1, frame_id = ''/kinect'', cloud = pixel_cloud NaN\<rparr>])))
     = [[''mug'']]
   \<and> latest_call_success (state_of (spin (ex_env [] True)
      ((ex_node 1 False)\<lparr>pcl_visualization := False\<rparr>)
      [GoalMsg [''mug''],
       CloudMsg \<lparr>stamp = 1, frame_id = ''/kinect'', cloud = pixel_cloud NaN\<rparr>]))
   \<and> latest_object_poses (state_of (spin (ex_env [] True)
      ((ex_node 1 False)\<lparr>pcl_visualization := False\<rparr>)
      [GoalMsg [''mug''],
       CloudMsg \<lparr>stamp = 1, frame_id = ''/kinect'', cloud = pixel_cloud NaN\<rparr>]))
     = [zero_Pose]
   \<and> pose_of_response (ex_env [] True)
        \<lparr>object_transforms = [payload], stats_field_names = [], stats = []\<rparr> 0
     = \<lparr>position = (4, 8, 12), orientation = (0, 0, 0, 1)\<rparr>
   \<and> goal_active (state_of (spin (ex_env [] True)
      ((ex_node 1 False)\<lparr>pcl_visualization := False\<rparr>)
      [GoalMsg [''mug''],
       CloudMsg \<lparr>stamp = 1, frame_id = ''/kinect'', cloud = pixel_cloud NaN\<rparr>]))"
  by (simp add: run_defs pose_of_response_def)

end
